theory Spec2Isabelle
  imports Complex_Main
begin

section \<open>Tensors of the backend\<close>

text \<open>
  The demixing code of \<^verbatim>\<open>archbase.py\<close> works on backend tensors of rank two and three.
  A tensor is modelled by its shape together with its entries, read by index; entries
  outside the shape are never looked at. The entries are real numbers: the backend's
  floating-point numbers are idealised, so rounding, overflow and underflow are outside
  this development.
\<close>

record tensor2 =
  nrows :: nat
  ncols :: nat
  at2 :: "nat \<Rightarrow> nat \<Rightarrow> real"

record tensor3 =
  dim0 :: nat
  dim1 :: nat
  dim2 :: nat
  at3 :: "nat \<Rightarrow> nat \<Rightarrow> nat \<Rightarrow> real"

text \<open>
  Broadcasting of two axes: an axis of length one is stretched to the other axis, and is
  then always read at index zero.
\<close>

definition bdim :: "nat \<Rightarrow> nat \<Rightarrow> nat" where
  "bdim a b = (if a = 1 then b else a)"

definition bidx :: "nat \<Rightarrow> nat \<Rightarrow> nat" where
  "bidx n i = (if n = 1 then 0 else i)"

text \<open>\<^verbatim>\<open>K.softmax(x, axis=1)\<close>: every row is exponentiated and divided by its sum.\<close>

definition K_softmax :: "tensor2 \<Rightarrow> tensor2" where
  "K_softmax x =
     \<lparr>nrows = nrows x, ncols = ncols x,
      at2 = (\<lambda>i j. exp (at2 x i j) / (\<Sum>k<ncols x. exp (at2 x i k)))\<rparr>"

text \<open>\<^verbatim>\<open>K.transpose(x)\<close>.\<close>

definition K_transpose :: "tensor2 \<Rightarrow> tensor2" where
  "K_transpose x = \<lparr>nrows = ncols x, ncols = nrows x, at2 = (\<lambda>i j. at2 x j i)\<rparr>"

text \<open>
  \<^verbatim>\<open>K.expand_dims(K.sum(x, axis=1), axis=-1)\<close>: the row sums, kept as a column.
\<close>

definition K_sum_axis1_col :: "tensor2 \<Rightarrow> tensor2" where
  "K_sum_axis1_col x =
     \<lparr>nrows = nrows x, ncols = 1, at2 = (\<lambda>i j. \<Sum>k<ncols x. at2 x i k)\<rparr>"

text \<open>\<^verbatim>\<open>x / y\<close> on tensors of rank two, with broadcasting.\<close>

definition K_div :: "tensor2 \<Rightarrow> tensor2 \<Rightarrow> tensor2" where
  "K_div x y =
     \<lparr>nrows = bdim (nrows x) (nrows y), ncols = bdim (ncols x) (ncols y),
      at2 = (\<lambda>i j. at2 x (bidx (nrows x) i) (bidx (ncols x) j)
                   / at2 y (bidx (nrows y) i) (bidx (ncols y) j))\<rparr>"

text \<open>\<^verbatim>\<open>K.expand_dims(x, axis=0)\<close> and \<^verbatim>\<open>K.expand_dims(x, axis=1)\<close>.\<close>

definition K_expand_dims0 :: "tensor2 \<Rightarrow> tensor3" where
  "K_expand_dims0 x =
     \<lparr>dim0 = 1, dim1 = nrows x, dim2 = ncols x, at3 = (\<lambda>i j d. at2 x j d)\<rparr>"

definition K_expand_dims1 :: "tensor2 \<Rightarrow> tensor3" where
  "K_expand_dims1 x =
     \<lparr>dim0 = nrows x, dim1 = 1, dim2 = ncols x, at3 = (\<lambda>i j d. at2 x i d)\<rparr>"

text \<open>\<^verbatim>\<open>x - y\<close> on tensors of rank three, with broadcasting.\<close>

definition K_sub3 :: "tensor3 \<Rightarrow> tensor3 \<Rightarrow> tensor3" where
  "K_sub3 x y =
     \<lparr>dim0 = bdim (dim0 x) (dim0 y), dim1 = bdim (dim1 x) (dim1 y),
      dim2 = bdim (dim2 x) (dim2 y),
      at3 = (\<lambda>i j d. at3 x (bidx (dim0 x) i) (bidx (dim1 x) j) (bidx (dim2 x) d)
                     - at3 y (bidx (dim0 y) i) (bidx (dim1 y) j) (bidx (dim2 y) d))\<rparr>"

text \<open>\<^verbatim>\<open>K.square(x)\<close>.\<close>

definition K_square3 :: "tensor3 \<Rightarrow> tensor3" where
  "K_square3 x = x\<lparr>at3 := (\<lambda>i j d. (at3 x i j d)\<^sup>2)\<rparr>"

text \<open>\<^verbatim>\<open>K.sum(x, axis=-1)\<close> on a tensor of rank three.\<close>

definition K_sum_last3 :: "tensor3 \<Rightarrow> tensor2" where
  "K_sum_last3 x =
     \<lparr>nrows = dim0 x, ncols = dim1 x, at2 = (\<lambda>i j. \<Sum>d<dim2 x. at3 x i j d)\<rparr>"

text \<open>\<^verbatim>\<open>x + c\<close> for a scalar \<^verbatim>\<open>c\<close>, and \<^verbatim>\<open>K.sqrt(x)\<close>.\<close>

definition K_add_scalar :: "tensor2 \<Rightarrow> real \<Rightarrow> tensor2" where
  "K_add_scalar x c = x\<lparr>at2 := (\<lambda>i j. at2 x i j + c)\<rparr>"

definition K_sqrt :: "tensor2 \<Rightarrow> tensor2" where
  "K_sqrt x = x\<lparr>at2 := (\<lambda>i j. sqrt (at2 x i j))\<rparr>"

text \<open>\<^verbatim>\<open>K.sum(x)\<close>: the sum of all entries.\<close>

definition K_sum_all :: "tensor2 \<Rightarrow> real" where
  "K_sum_all x = (\<Sum>i<nrows x. \<Sum>j<ncols x. at2 x i j)"

section \<open>Errors\<close>

datatype error =
    ValueError string
  | AttributeError string
  | TypeError string
  | RecursionError
  | ShapeError

text \<open>
  \<^verbatim>\<open>K.dot(x, y)\<close> on tensors of rank two: the matrix product. The inner dimensions must
  agree; otherwise the backend raises.
\<close>

definition K_dot :: "tensor2 \<Rightarrow> tensor2 \<Rightarrow> error + tensor2" where
  "K_dot x y =
     (if ncols x = nrows y
      then Inr \<lparr>nrows = nrows x, ncols = ncols y,
                at2 = (\<lambda>n d. \<Sum>c<ncols x. at2 x n c * at2 y c d)\<rparr>
      else Inl ShapeError)"

section \<open>The vertex matrix and the perimeter loss\<close>

definition to_vertices :: "tensor2 \<Rightarrow> tensor2" where
  "to_vertices raw_fractions =
     (let fractions = K_softmax raw_fractions;
          raw_vertices = K_transpose fractions;
          denominator = K_sum_axis1_col raw_vertices;
          vertices = K_div raw_vertices denominator
      in vertices)"

definition perimeterLoss :: "tensor2 \<Rightarrow> real" where
  "perimeterLoss raw_fractions =
     (let vertices = to_vertices raw_fractions;
          A = K_expand_dims0 vertices;
          B = K_expand_dims1 vertices;
          pws_squares = K_sum_last3 (K_square3 (K_sub3 A B));
          pws_distances = K_sqrt (K_add_scalar pws_squares (1 / 10 ^ 9));
          edge_lengths = (1 / 2) * K_sum_all pws_distances
      in edge_lengths)"

text \<open>The entry of the row-softmax, and the column sums that normalise the vertices.\<close>

definition fraction_at :: "tensor2 \<Rightarrow> nat \<Rightarrow> nat \<Rightarrow> real" where
  "fraction_at raw d c = exp (at2 raw d c) / (\<Sum>k<ncols raw. exp (at2 raw d k))"

definition colsum :: "tensor2 \<Rightarrow> nat \<Rightarrow> real" where
  "colsum raw c = (\<Sum>d<nrows raw. fraction_at raw d c)"

text \<open>
  Two quantities the statements below are written with: the squared Euclidean distance
  between two rows of a matrix, and the distance with the offset of \<open>perimeterLoss\<close>.
\<close>

definition sqdist :: "tensor2 \<Rightarrow> nat \<Rightarrow> nat \<Rightarrow> real" where
  "sqdist v i j = (\<Sum>d<ncols v. (at2 v i d - at2 v j d)\<^sup>2)"

definition edge :: "tensor2 \<Rightarrow> nat \<Rightarrow> nat \<Rightarrow> real" where
  "edge v i j = sqrt (sqdist v i j + 1 / 10 ^ 9)"

text \<open>
  Relabelling the categories: column \<open>j\<close> of the result is column \<open>p ! j\<close> of the
  argument (the backend's \<^verbatim>\<open>gather\<close> along axis 1). The list \<open>p\<close> is a permutation of
  the column indices when it is \<open>distinct\<close> and its elements are exactly those indices.
\<close>

definition permute_columns :: "nat list \<Rightarrow> tensor2 \<Rightarrow> tensor2" where
  "permute_columns p x =
     \<lparr>nrows = nrows x, ncols = length p, at2 = (\<lambda>i j. at2 x i (p ! j))\<rparr>"

definition is_permutation :: "nat list \<Rightarrow> nat \<Rightarrow> bool" where
  "is_permutation p n \<longleftrightarrow> distinct p \<and> set p = {..<n}"

section \<open>The DeMixer\<close>

text \<open>
  The inner model is an object of the framework. What the code here uses of it is its
  forward computation and, for attribute delegation, which attribute names it has.
\<close>

record 'inp keras_model =
  forward :: "'inp \<Rightarrow> tensor2"
  has_attr :: "string \<Rightarrow> bool"

record 'inp DeMixer =
  dm_output_dim :: nat
  dm_number_cat :: nat
  dm_alpha :: real
  architecture :: "'inp keras_model"
  raw_fractions :: tensor2

text \<open>\<^verbatim>\<open>K.eye(n)\<close> and the slice \<^verbatim>\<open>x[:, :k]\<close>, which keeps the columns that exist.\<close>

definition K_eye :: "nat \<Rightarrow> tensor2" where
  "K_eye n = \<lparr>nrows = n, ncols = n, at2 = (\<lambda>i j. if i = j then 1 else 0)\<rparr>"

definition slice_columns :: "tensor2 \<Rightarrow> nat \<Rightarrow> tensor2" where
  "slice_columns x k = x\<lparr>ncols := min k (ncols x)\<rparr>"

text \<open>
  \<^verbatim>\<open>add_weight(shape=..., initializer=Constant(value))\<close>: the weight of the requested
  shape starts as the given value. A value of another shape cannot be the content of the
  weight; how the framework reacts to one is not part of this repository, and the model
  records it as \<open>ShapeError\<close>.
\<close>

definition add_weight :: "nat \<times> nat \<Rightarrow> tensor2 \<Rightarrow> error + tensor2" where
  "add_weight shape v = (if (nrows v, ncols v) = shape then Inr v else Inl ShapeError)"

definition DeMixer_init ::
  "nat \<Rightarrow> nat \<Rightarrow> real \<Rightarrow> 'inp keras_model \<Rightarrow> error + 'inp DeMixer" where
  "DeMixer_init output_dim number_cat alpha arch =
     (case add_weight (output_dim, number_cat) (slice_columns (K_eye output_dim) number_cat) of
        Inl e \<Rightarrow> Inl e
      | Inr w \<Rightarrow>
          Inr \<lparr>dm_output_dim = output_dim, dm_number_cat = number_cat, dm_alpha = alpha,
               architecture = arch, raw_fractions = w\<rparr>)"

definition getFractions :: "'inp DeMixer \<Rightarrow> tensor2" where
  "getFractions self = K_softmax (raw_fractions self)"

definition getVertices :: "'inp DeMixer \<Rightarrow> tensor2" where
  "getVertices self = to_vertices (raw_fractions self)"

text \<open>
  \<^verbatim>\<open>DeMixer.call\<close>. The loss registered with \<^verbatim>\<open>add_loss\<close> is a closure without
  arguments; it is the first component of the result. It is registered before the matrix
  product, so it is there also when the product fails on the shapes.
\<close>

definition DeMixer_call ::
  "'inp DeMixer \<Rightarrow> 'inp \<Rightarrow> (unit \<Rightarrow> real) \<times> (error + tensor2)" where
  "DeMixer_call self inputs =
     (let barycentric = forward (architecture self) inputs;
          loss = (\<lambda>_. dm_alpha self * perimeterLoss (raw_fractions self));
          vertices = to_vertices (raw_fractions self);
          outputs = K_dot barycentric vertices
      in (loss, outputs))"

section \<open>NNBase: hyperparameters and mode\<close>

text \<open>
  The hyperparameters are a dictionary from names to values. The entries modelled are
  those the demixing configuration reads, each with the type its documentation gives; a
  missing key is \<open>None\<close>. The other hyperparameters (compilation, callbacks, flags) are
  popped by \<^verbatim>\<open>_process_hps\<close> as well and play no part here.
\<close>

record hps =
  hp_output_dim :: "nat option"
  hp_number_cat :: "nat option"
  hp_mode :: "string option"
  hp_alpha :: "real option"

text \<open>
  \<^verbatim>\<open>_proc_arg(name, default=...)\<close>: pop the entry from the dictionary, or take the
  default. The entry is given by its reader and by the update that removes it.
\<close>

definition proc_arg ::
  "(hps \<Rightarrow> 'a option) \<Rightarrow> (hps \<Rightarrow> hps) \<Rightarrow> 'a \<Rightarrow> hps \<Rightarrow> 'a \<times> hps" where
  "proc_arg look remove dflt h =
     (case look h of Some v \<Rightarrow> (v, remove h) | None \<Rightarrow> (dflt, h))"

text \<open>
  \<^verbatim>\<open>str.lower()\<close> on strings whose characters are code points below 256: the capital
  letters A to Z and the capital letters of the Latin-1 block move up by 32.
\<close>

definition lower_char :: "char \<Rightarrow> char" where
  "lower_char c =
     (let n = (of_char c :: nat)
      in if (65 \<le> n \<and> n \<le> 90) \<or> (192 \<le> n \<and> n \<le> 214) \<or> (216 \<le> n \<and> n \<le> 222)
         then char_of (n + 32) else c)"

definition lower :: "string \<Rightarrow> string" where
  "lower s = map lower_char s"

definition quote :: string where
  "quote = [CHR 0x27]"

text \<open>\<^verbatim>\<open>repr\<close> of a string without quotes or escapes in it, and of a list of such.\<close>

definition repr_str :: "string \<Rightarrow> string" where
  "repr_str s = quote @ s @ quote"

fun join_comma :: "string list \<Rightarrow> string" where
  "join_comma [] = []"
| "join_comma [x] = x"
| "join_comma (x # y # ys) = x @ '', '' @ join_comma (y # ys)"

definition repr_list :: "string list \<Rightarrow> string" where
  "repr_list xs = ''['' @ join_comma (map repr_str xs) @ '']''"

text \<open>\<^verbatim>\<open>sorted(allowed_modes)\<close> for \<^verbatim>\<open>allowed_modes = {'demix', 'plain'}\<close>.\<close>

definition allowed_modes :: "string list" where
  "allowed_modes = [''demix'', ''plain'']"

record 'inp NNBase =
  class_name :: string
  self_hps :: hps
  output_dim :: nat
  number_cat :: nat
  mode :: string
  alpha :: real
  demixer_output_dim :: "nat option"
  u_model :: "'inp keras_model option"
  u_demixer :: "'inp DeMixer option"

text \<open>
  \<^verbatim>\<open>NNBase._process_hps\<close>, from the dictionary stored by \<^verbatim>\<open>ArchBase.__init__\<close>. The
  attributes \<^verbatim>\<open>_model\<close> and \<^verbatim>\<open>_demixer\<close> do not exist yet; \<^verbatim>\<open>demixer_output_dim\<close>
  exists in demix mode only.
\<close>

definition process_hps :: "string \<Rightarrow> hps \<Rightarrow> error + 'inp NNBase" where
  "process_hps cls h0 =
     (let (od, h1) = proc_arg hp_output_dim (\<lambda>h. h\<lparr>hp_output_dim := None\<rparr>) 2 h0;
          (nc, h2) = proc_arg hp_number_cat (\<lambda>h. h\<lparr>hp_number_cat := None\<rparr>) od h1;
          (m, h3) = proc_arg hp_mode (\<lambda>h. h\<lparr>hp_mode := None\<rparr>) ''demix'' h2;
          md = lower m;
          (al, h4) = proc_arg hp_alpha (\<lambda>h. h\<lparr>hp_alpha := None\<rparr>) (1 / 10000) h3
      in if md \<notin> set allowed_modes
         then Inl (ValueError (''Unrecognised mode '' @ quote @ md @ quote
                     @ ''. Valid options are '' @ repr_list allowed_modes @ ''.''))
         else if md = ''demix''
         then Inr \<lparr>class_name = cls, self_hps = h4, output_dim = nc, number_cat = nc,
                   mode = md, alpha = al, demixer_output_dim = Some od,
                   u_model = None, u_demixer = None\<rparr>
         else Inr \<lparr>class_name = cls, self_hps = h4, output_dim = od, number_cat = nc,
                   mode = md, alpha = al, demixer_output_dim = None,
                   u_model = None, u_demixer = None\<rparr>)"

section \<open>Attribute lookup on an NNBase object\<close>

text \<open>
  \<^verbatim>\<open>ArchBase\<close> defines \<^verbatim>\<open>__getattr__\<close>, and \<^verbatim>\<open>NNBase\<close> defines the properties
  \<^verbatim>\<open>model\<close> and \<^verbatim>\<open>demixer\<close>, which test \<^verbatim>\<open>hasattr(self, ...)\<close>. These call each other
  through the interpreter's attribute protocol, so the protocol is part of the model:
  a lookup first tries the properties of the class and the attributes of the instance,
  and when that raises \<open>AttributeError\<close> it calls \<^verbatim>\<open>__getattr__\<close>. The nesting of
  lookups is bounded by the interpreter's recursion limit, here the first argument of
  \<open>getattr_self\<close>; running out of it is \<open>RecursionError\<close>.
\<close>

datatype 'inp pyval =
    VModel "'inp keras_model"
  | VDemixer "'inp DeMixer"
  | VNat nat
  | VStr string
  | VReal real
  | VDelegated string

definition instance_dict :: "'inp NNBase \<Rightarrow> string \<Rightarrow> 'inp pyval option" where
  "instance_dict self name =
     (if name = ''_model'' then map_option VModel (u_model self)
      else if name = ''_demixer'' then map_option VDemixer (u_demixer self)
      else if name = ''output_dim'' then Some (VNat (output_dim self))
      else if name = ''number_cat'' then Some (VNat (number_cat self))
      else if name = ''mode'' then Some (VStr (mode self))
      else if name = ''alpha'' then Some (VReal (alpha self))
      else if name = ''demixer_output_dim'' then map_option VNat (demixer_output_dim self)
      else None)"

text \<open>\<^verbatim>\<open>hasattr(self, name)\<close>: only \<open>AttributeError\<close> means that the attribute is absent.\<close>

definition hasattr_self ::
  "(string \<Rightarrow> error + 'inp pyval) \<Rightarrow> string \<Rightarrow> error + bool" where
  "hasattr_self lookup name =
     (case lookup name of
        Inr _ \<Rightarrow> Inr True
      | Inl (AttributeError _) \<Rightarrow> Inr False
      | Inl e \<Rightarrow> Inl e)"

text \<open>The property \<^verbatim>\<open>NNBase.model\<close>.\<close>

definition model_getter ::
  "'inp NNBase \<Rightarrow> (string \<Rightarrow> error + 'inp pyval) \<Rightarrow> error + 'inp pyval" where
  "model_getter self lookup =
     (case hasattr_self lookup ''_model'' of
        Inl e \<Rightarrow> Inl e
      | Inr True \<Rightarrow> lookup ''_model''
      | Inr False \<Rightarrow>
          Inl (AttributeError (quote @ class_name self @ quote
                 @ '' object has no underlying model'')))"

text \<open>The property \<^verbatim>\<open>NNBase.demixer\<close>.\<close>

definition demixer_getter ::
  "'inp NNBase \<Rightarrow> (string \<Rightarrow> error + 'inp pyval) \<Rightarrow> error + 'inp pyval" where
  "demixer_getter self lookup =
     (case hasattr_self lookup ''_demixer'' of
        Inl e \<Rightarrow> Inl e
      | Inr True \<Rightarrow> lookup ''_demixer''
      | Inr False \<Rightarrow>
          Inl (AttributeError (quote @ class_name self @ quote
                 @ '' object has no underlying demixer'')))"

text \<open>
  \<^verbatim>\<open>ArchBase.__getattr__\<close>: unknown attributes are passed on to the underlying model.
\<close>

definition dunder_getattr ::
  "'inp NNBase \<Rightarrow> (string \<Rightarrow> error + 'inp pyval) \<Rightarrow> string \<Rightarrow> error + 'inp pyval" where
  "dunder_getattr self lookup attr =
     (case lookup ''model'' of
        Inl e \<Rightarrow> Inl e
      | Inr v \<Rightarrow>
          if (case v of VModel m \<Rightarrow> has_attr m attr | _ \<Rightarrow> False)
          then Inr (VDelegated attr)
          else Inl (AttributeError (quote @ class_name self @ quote
                      @ '' object has no attribute '' @ quote @ attr @ quote @ '', ''
                      @ ''check of underlying model failed'')))"

text \<open>The default lookup: properties of the class, then the instance's attributes.\<close>

definition default_lookup ::
  "'inp NNBase \<Rightarrow> (string \<Rightarrow> error + 'inp pyval) \<Rightarrow> string \<Rightarrow> error + 'inp pyval" where
  "default_lookup self lookup name =
     (if name = ''model'' then model_getter self lookup
      else if name = ''demixer'' then demixer_getter self lookup
      else (case instance_dict self name of
              Some v \<Rightarrow> Inr v
            | None \<Rightarrow>
                Inl (AttributeError (quote @ class_name self @ quote
                       @ '' object has no attribute '' @ quote @ name @ quote))))"

primrec getattr_self :: "nat \<Rightarrow> 'inp NNBase \<Rightarrow> string \<Rightarrow> error + 'inp pyval" where
  "getattr_self 0 self = (\<lambda>name. Inl RecursionError)"
| "getattr_self (Suc depth) self =
     (\<lambda>name. case default_lookup self (getattr_self depth self) name of
                Inl (AttributeError msg) \<Rightarrow> dunder_getattr self (getattr_self depth self) name
              | Inl e \<Rightarrow> Inl e
              | Inr v \<Rightarrow> Inr v)"

section \<open>NNBase: construction, fit and predict\<close>

text \<open>
  \<^verbatim>\<open>NNBase._construct_demixer\<close>. The two attributes are read through the lookup
  above; a value that is not a dimension or not a model cannot be used by the DeMixer
  and is recorded as \<open>TypeError\<close>. Compiling the demixer configures the framework's
  training and changes nothing that is modelled here.
\<close>

definition construct_demixer :: "nat \<Rightarrow> 'inp NNBase \<Rightarrow> error + 'inp NNBase" where
  "construct_demixer depth self =
     (case getattr_self depth self ''demixer_output_dim'' of
        Inr (VNat d) \<Rightarrow>
          (case getattr_self depth self ''model'' of
             Inr (VModel m) \<Rightarrow>
               (case DeMixer_init d (number_cat self) (alpha self) m of
                  Inl e \<Rightarrow> Inl e
                | Inr dm \<Rightarrow> Inr (self\<lparr>u_demixer := Some dm\<rparr>))
           | Inr _ \<Rightarrow> Inl (TypeError ''architecture is not a model'')
           | Inl e \<Rightarrow> Inl e)
      | Inr _ \<Rightarrow> Inl (TypeError ''demixer_output_dim is not a dimension'')
      | Inl e \<Rightarrow> Inl e)"

text \<open>
  \<^verbatim>\<open>NNBase.__init__\<close>, after \<^verbatim>\<open>ArchBase.__init__\<close>. The method \<^verbatim>\<open>_construct_model\<close> is
  abstract: the subclass builds the inner model from the processed hyperparameters and
  stores it in \<^verbatim>\<open>_model\<close>. It is the parameter \<open>build\<close>.
\<close>

definition NNBase_init ::
  "string \<Rightarrow> ('inp NNBase \<Rightarrow> error + 'inp keras_model) \<Rightarrow> hps \<Rightarrow> nat
     \<Rightarrow> error + 'inp NNBase" where
  "NNBase_init cls build kwargs depth =
     (case process_hps cls kwargs of
        Inl e \<Rightarrow> Inl e
      | Inr self1 \<Rightarrow>
          (case build self1 of
             Inl e \<Rightarrow> Inl e
           | Inr m \<Rightarrow>
               (let self2 = self1\<lparr>u_model := Some m\<rparr>
                in if mode self2 = ''demix'' then construct_demixer depth self2
                   else Inr self2)))"

text \<open>
  The object that \<^verbatim>\<open>NNBase.fit\<close> trains (\<^verbatim>\<open>fitTarget\<close>) and the object that
  \<^verbatim>\<open>NNBase.predict\<close> evaluates (\<^verbatim>\<open>predictTarget\<close>).
\<close>

definition fitTarget :: "nat \<Rightarrow> 'inp NNBase \<Rightarrow> error + 'inp pyval" where
  "fitTarget depth self =
     (if mode self = ''demix'' then getattr_self depth self ''demixer''
      else getattr_self depth self ''model'')"

definition predictTarget :: "nat \<Rightarrow> 'inp NNBase \<Rightarrow> error + 'inp pyval" where
  "predictTarget depth self =
     (if mode self = ''demix'' then getattr_self depth self ''demixer''
      else getattr_self depth self ''model'')"

text \<open>
  \<^verbatim>\<open>NNBase.predict\<close>: the framework's \<^verbatim>\<open>predict\<close> of the target runs its forward
  computation on the inputs.
\<close>

definition predict :: "nat \<Rightarrow> 'inp NNBase \<Rightarrow> 'inp \<Rightarrow> error + tensor2" where
  "predict depth self x =
     (case predictTarget depth self of
        Inl e \<Rightarrow> Inl e
      | Inr (VDemixer dm) \<Rightarrow> snd (DeMixer_call dm x)
      | Inr (VModel m) \<Rightarrow> Inr (forward m x)
      | Inr _ \<Rightarrow> Inl (TypeError ''target is not a model''))"

section \<open>Requested values and example inputs\<close>

text \<open>
  What the user asked for, read from the keyword arguments with the defaults of
  \<^verbatim>\<open>_process_hps\<close>, and the message of the error for an unknown mode, written out.
\<close>

definition requested_output_dim :: "hps \<Rightarrow> nat" where
  "requested_output_dim kw = (case hp_output_dim kw of Some d \<Rightarrow> d | None \<Rightarrow> 2)"

definition requested_number_cat :: "hps \<Rightarrow> nat" where
  "requested_number_cat kw =
     (case hp_number_cat kw of Some c \<Rightarrow> c | None \<Rightarrow> requested_output_dim kw)"

definition requested_mode :: "hps \<Rightarrow> string" where
  "requested_mode kw = (case hp_mode kw of Some m \<Rightarrow> m | None \<Rightarrow> ''demix'')"

definition requested_alpha :: "hps \<Rightarrow> real" where
  "requested_alpha kw = (case hp_alpha kw of Some a \<Rightarrow> a | None \<Rightarrow> 1 / 10000)"

definition no_hps :: hps where
  "no_hps = \<lparr>hp_output_dim = None, hp_number_cat = None, hp_mode = None, hp_alpha = None\<rparr>"

definition mode_error :: "string \<Rightarrow> error" where
  "mode_error md =
     ValueError (''Unrecognised mode '' @ quote @ md @ quote @ ''. Valid options are [''
       @ quote @ ''demix'' @ quote @ '', '' @ quote @ ''plain'' @ quote @ ''].'')"

text \<open>
  Concrete inputs: a raw parameter matrix, an inner model that returns the uniform
  distribution over its output width for every row of its input, a subclass that builds
  this model with the width \<^verbatim>\<open>self.output_dim\<close>, a DeMixer as constructed for three
  outputs and two categories, and keyword arguments.
\<close>

definition raw_example :: tensor2 where
  "raw_example = \<lparr>nrows = 2, ncols = 3, at2 = (\<lambda>i j. real (i + 2 * j))\<rparr>"

definition model_example :: "nat \<Rightarrow> tensor2 keras_model" where
  "model_example width =
     \<lparr>forward = (\<lambda>x. \<lparr>nrows = nrows x, ncols = width, at2 = (\<lambda>n c. 1 / real width)\<rparr>),
      has_attr = (\<lambda>name. name \<in> set [''layers'', ''inputs'', ''outputs''])\<rparr>"

definition build_example :: "tensor2 NNBase \<Rightarrow> error + tensor2 keras_model" where
  "build_example self = Inr (model_example (output_dim self))"

definition demixer_example :: "tensor2 DeMixer" where
  "demixer_example =
     \<lparr>dm_output_dim = 3, dm_number_cat = 2, dm_alpha = 1 / 10000,
      architecture = model_example 2, raw_fractions = slice_columns (K_eye 3) 2\<rparr>"

definition inputs_example :: tensor2 where
  "inputs_example = \<lparr>nrows = 1, ncols = 4, at2 = (\<lambda>n c. 0)\<rparr>"

definition kwargs_demix :: hps where
  "kwargs_demix = \<lparr>hp_output_dim = Some 3, hp_number_cat = Some 2, hp_mode = Some ''DeMix'',
                    hp_alpha = None\<rparr>"

definition kwargs_plain :: hps where
  "kwargs_plain = \<lparr>hp_output_dim = Some 3, hp_number_cat = None, hp_mode = Some ''plain'',
                    hp_alpha = None\<rparr>"

definition kwargs_invalid :: hps where
  "kwargs_invalid = \<lparr>hp_output_dim = None, hp_number_cat = None, hp_mode = Some ''Invalid'',
                      hp_alpha = None\<rparr>"

definition kwargs_default :: hps where
  "kwargs_default = \<lparr>hp_output_dim = None, hp_number_cat = None, hp_mode = None,
                      hp_alpha = None\<rparr>"

section \<open>Facts about the vertex matrix\<close>

lemma bidx_less: "i < n \<Longrightarrow> bidx n i = i"
  by (auto simp: bidx_def)

lemma bidx_Suc0: "bidx (Suc 0) i = 0"
  by (simp add: bidx_def)

lemma bdim_same: "bdim n n = n"
  by (simp add: bdim_def)

lemma to_vertices_nrows: "nrows (to_vertices raw) = ncols raw"
  by (simp add: to_vertices_def K_div_def K_sum_axis1_col_def K_transpose_def
      K_softmax_def bdim_same Let_def)

lemma to_vertices_ncols: "ncols (to_vertices raw) = nrows raw"
  by (simp add: to_vertices_def K_div_def K_sum_axis1_col_def K_transpose_def
      K_softmax_def bdim_def Let_def)

lemma to_vertices_at:
  assumes "c < ncols raw" and "d < nrows raw"
  shows "at2 (to_vertices raw) c d = fraction_at raw d c / colsum raw c"
  using assms
  by (simp add: to_vertices_def K_div_def K_sum_axis1_col_def K_transpose_def
      K_softmax_def bidx_less fraction_at_def colsum_def Let_def)

lemma exp_sum_pos:
  fixes n :: nat and f :: "nat \<Rightarrow> real"
  assumes "c < n"
  shows "0 < (\<Sum>k<n. exp (f k))"
proof -
  have "c \<in> {..<n}"
    using assms by simp
  then have "{..<n} \<noteq> {}"
    by blast
  then show ?thesis
    by (intro sum_pos) auto
qed

lemma fraction_at_pos: "c < ncols raw \<Longrightarrow> 0 < fraction_at raw d c"
  unfolding fraction_at_def by (intro divide_pos_pos exp_gt_zero exp_sum_pos)

lemma colsum_pos:
  assumes "c < ncols raw" and "1 \<le> nrows raw"
  shows "0 < colsum raw c"
proof -
  have "0 \<in> {..<nrows raw}"
    using assms(2) by simp
  then have "{..<nrows raw} \<noteq> {}"
    by blast
  then show ?thesis
    unfolding colsum_def using assms(1) by (intro sum_pos) (auto simp: fraction_at_pos)
qed

text \<open>The rows of the vertex matrix are points of the simplex.\<close>

lemma to_vertices_row_facts:
  assumes "1 \<le> nrows raw" and "c < ncols raw"
  shows "nrows (to_vertices raw) = ncols raw
       \<and> ncols (to_vertices raw) = nrows raw
       \<and> (\<Sum>d<ncols (to_vertices raw). at2 (to_vertices raw) c d) = 1
       \<and> (\<forall>d<ncols (to_vertices raw). 0 \<le> at2 (to_vertices raw) c d)"
proof -
  have pos: "0 < colsum raw c"
    using assms by (simp add: colsum_pos)
  have "(\<Sum>d<nrows raw. at2 (to_vertices raw) c d) = (\<Sum>d<nrows raw. fraction_at raw d c / colsum raw c)"
    using assms(2) by (simp add: to_vertices_at)
  also have "\<dots> = colsum raw c / colsum raw c"
    unfolding colsum_def by (rule sum_divide_distrib [symmetric])
  also have "\<dots> = 1"
    using pos by simp
  finally have s: "(\<Sum>d<nrows raw. at2 (to_vertices raw) c d) = 1" .
  have nn: "0 \<le> at2 (to_vertices raw) c d" if "d < nrows raw" for d
    using that assms(2) pos fraction_at_pos [of c raw d] by (simp add: to_vertices_at)
  show ?thesis
    using s nn by (simp add: to_vertices_nrows to_vertices_ncols)
qed

text \<open>
  C2. For a raw parameter matrix with at least one row (output_dim at least one) and a
  category \<open>c\<close> below its number of columns (so number_cat is at least one), row \<open>c\<close> of
  the vertex matrix returned by \<open>to_vertices\<close> sums to one and has only non-negative
  entries; the vertex matrix has shape (number_cat, output_dim). The numbers are reals.
\<close>

theorem to_vertices_row_stochastic:
  assumes "1 \<le> nrows raw" and "c < ncols raw"
  shows "nrows (to_vertices raw) = ncols raw
       \<and> ncols (to_vertices raw) = nrows raw
       \<and> (\<Sum>d<ncols (to_vertices raw). at2 (to_vertices raw) c d) = 1
       \<and> (\<forall>d<ncols (to_vertices raw). 0 \<le> at2 (to_vertices raw) c d)"
  using assms by (rule to_vertices_row_facts)

theorem to_vertices_row_stochastic_witness:
  "1 \<le> nrows raw_example \<and> 1 < ncols raw_example
   \<and> nrows (to_vertices raw_example) = 3 \<and> ncols (to_vertices raw_example) = 2
   \<and> (\<Sum>d<ncols (to_vertices raw_example). at2 (to_vertices raw_example) 1 d) = 1
   \<and> 0 \<le> at2 (to_vertices raw_example) 1 0"
proof -
  have a: "1 \<le> nrows raw_example" and b: "1 < ncols raw_example"
    by (simp_all add: raw_example_def)
  have c: "ncols raw_example = 3" "nrows raw_example = 2"
    by (simp_all add: raw_example_def)
  have d: "(0::nat) < 2"
    by simp
  show ?thesis
    using a b c d to_vertices_row_stochastic [OF a b] by metis
qed

section \<open>The output of the DeMixer\<close>

lemma K_dot_row_sum:
  assumes "ncols x = nrows y"
    and rows: "\<And>c. c < nrows y \<Longrightarrow> (\<Sum>d<ncols y. at2 y c d) = 1"
  shows "(\<Sum>d<ncols y. \<Sum>c<ncols x. at2 x n c * at2 y c d) = (\<Sum>c<ncols x. at2 x n c)"
proof -
  have "(\<Sum>d<ncols y. \<Sum>c<ncols x. at2 x n c * at2 y c d)
        = (\<Sum>c<ncols x. \<Sum>d<ncols y. at2 x n c * at2 y c d)"
    by (rule sum.swap)
  also have "\<dots> = (\<Sum>c<ncols x. at2 x n c * (\<Sum>d<ncols y. at2 y c d))"
    by (simp add: sum_distrib_left)
  also have "\<dots> = (\<Sum>c<ncols x. at2 x n c)"
    using assms by (intro sum.cong refl) simp
  finally show ?thesis .
qed

text \<open>
  C1. Let the raw parameter matrix of a DeMixer have at least one row, let the inner
  model return a batch whose rows have number_cat entries, and let row \<open>n\<close> of that
  batch be a probability distribution: non-negative entries that sum to one. Then
  \<open>DeMixer.call\<close> returns the matrix product of the batch with the vertex matrix derived
  from the raw parameter matrix: every row of the output is the combination of the
  vertex rows with the entries of the batch row as coefficients. The output has rows of
  length output_dim, and row \<open>n\<close> of it has non-negative entries that sum to one, as every
  vertex row has; so row \<open>n\<close> is a convex combination of points of the simplex.
\<close>

theorem DeMixer_call_output_in_simplex:
  assumes dim: "1 \<le> nrows (raw_fractions self)"
    and shape: "ncols (forward (architecture self) inputs) = ncols (raw_fractions self)"
    and nonneg: "\<forall>c<ncols (raw_fractions self). 0 \<le> at2 (forward (architecture self) inputs) n c"
    and total: "(\<Sum>c<ncols (raw_fractions self). at2 (forward (architecture self) inputs) n c) = 1"
  shows "\<exists>outputs. snd (DeMixer_call self inputs) = Inr outputs
           \<and> nrows outputs = nrows (forward (architecture self) inputs)
           \<and> ncols outputs = nrows (raw_fractions self)
           \<and> (\<forall>m d. at2 outputs m d =
                  (\<Sum>c<ncols (raw_fractions self).
                     at2 (forward (architecture self) inputs) m c
                     * at2 (to_vertices (raw_fractions self)) c d))
           \<and> (\<forall>c<ncols (raw_fractions self).
                  (\<forall>d<ncols outputs. 0 \<le> at2 (to_vertices (raw_fractions self)) c d)
                  \<and> (\<Sum>d<ncols outputs. at2 (to_vertices (raw_fractions self)) c d) = 1)
           \<and> (\<forall>d<ncols outputs. 0 \<le> at2 outputs n d)
           \<and> (\<Sum>d<ncols outputs. at2 outputs n d) = 1"
proof -
  let ?b = "forward (architecture self) inputs"
  let ?raw = "raw_fractions self"
  let ?v = "to_vertices ?raw"
  let ?out = "\<lparr>nrows = nrows ?b, ncols = ncols ?v,
               at2 = (\<lambda>n d. \<Sum>c<ncols ?b. at2 ?b n c * at2 ?v c d)\<rparr>"
  have fits: "ncols ?b = nrows ?v"
    using shape by (simp add: to_vertices_nrows)
  have call: "snd (DeMixer_call self inputs) = Inr ?out"
    using fits by (simp add: DeMixer_call_def Let_def K_dot_def)
  have vrow: "(\<Sum>d<ncols ?v. at2 ?v c d) = 1 \<and> (\<forall>d<ncols ?v. 0 \<le> at2 ?v c d)"
    if "c < ncols ?raw" for c
    using to_vertices_row_facts [OF dim that] by blast
  have "(\<Sum>d<ncols ?v. \<Sum>c<ncols ?b. at2 ?b n c * at2 ?v c d) = (\<Sum>c<ncols ?b. at2 ?b n c)"
    using fits vrow by (intro K_dot_row_sum) (simp_all add: to_vertices_nrows)
  then have s: "(\<Sum>d<ncols ?out. at2 ?out n d) = 1"
    using total shape by simp
  have nn: "0 \<le> at2 ?out n d" if "d < ncols ?out" for d
  proof -
    have "0 \<le> at2 ?b n c * at2 ?v c d" if "c < ncols ?b" for c
      using that nonneg shape vrow [of c] \<open>d < ncols ?out\<close> by simp
    then have "0 \<le> (\<Sum>c<ncols ?b. at2 ?b n c * at2 ?v c d)"
      by (intro sum_nonneg) simp
    then show ?thesis
      by simp
  qed
  have prod: "at2 ?out m d = (\<Sum>c<ncols ?raw. at2 ?b m c * at2 ?v c d)" for m d
    using shape by simp
  have vs: "(\<forall>d<ncols ?out. 0 \<le> at2 ?v c d) \<and> (\<Sum>d<ncols ?out. at2 ?v c d) = 1"
    if "c < ncols ?raw" for c
    using vrow [OF that] by simp
  have sh: "nrows ?out = nrows ?b" "ncols ?out = nrows ?raw"
    by (simp_all add: to_vertices_ncols)
  show ?thesis
    using call sh prod vs nn s by (intro exI [of _ ?out] conjI allI impI) blast+
qed

theorem DeMixer_call_output_in_simplex_witness:
  "1 \<le> nrows (raw_fractions demixer_example)
   \<and> (\<exists>outputs. snd (DeMixer_call demixer_example inputs_example) = Inr outputs
        \<and> nrows outputs = 1 \<and> ncols outputs = 3
        \<and> (\<forall>m d. at2 outputs m d =
               (\<Sum>c<ncols (raw_fractions demixer_example).
                  at2 (forward (architecture demixer_example) inputs_example) m c
                  * at2 (to_vertices (raw_fractions demixer_example)) c d))
        \<and> (\<forall>d<ncols outputs. 0 \<le> at2 outputs 0 d)
        \<and> (\<Sum>d<ncols outputs. at2 outputs 0 d) = 1)"
proof -
  have a: "1 \<le> nrows (raw_fractions demixer_example)"
    by (simp add: demixer_example_def slice_columns_def K_eye_def)
  have b: "ncols (forward (architecture demixer_example) inputs_example)
           = ncols (raw_fractions demixer_example)"
    by (simp add: demixer_example_def slice_columns_def K_eye_def model_example_def)
  have c: "\<forall>c<ncols (raw_fractions demixer_example).
             0 \<le> at2 (forward (architecture demixer_example) inputs_example) 0 c"
    by (simp add: demixer_example_def model_example_def)
  have d: "(\<Sum>c<ncols (raw_fractions demixer_example).
             at2 (forward (architecture demixer_example) inputs_example) 0 c) = 1"
    by (simp add: demixer_example_def slice_columns_def K_eye_def model_example_def)
  have e: "nrows (forward (architecture demixer_example) inputs_example) = 1"
    "nrows (raw_fractions demixer_example) = 3"
    by (simp_all add: demixer_example_def slice_columns_def K_eye_def model_example_def
        inputs_example_def)
  show ?thesis
    using a DeMixer_call_output_in_simplex [OF a b c d] unfolding e by blast
qed

text \<open>
  C4. The loss registered by \<open>DeMixer.call\<close> evaluates to alpha times \<open>perimeterLoss\<close>
  of the raw parameter matrix, and it is the same closure whatever the input batch is.
\<close>

theorem DeMixer_call_loss_independent_of_inputs:
  "fst (DeMixer_call self inputs) () = dm_alpha self * perimeterLoss (raw_fractions self)
   \<and> fst (DeMixer_call self inputs) = fst (DeMixer_call self inputs')"
  by (simp add: DeMixer_call_def Let_def)

section \<open>The perimeter loss\<close>

lemma pws_squares_at:
  assumes "i < nrows v" and "j < nrows v"
  shows "at2 (K_sum_last3 (K_square3 (K_sub3 (K_expand_dims0 v) (K_expand_dims1 v)))) i j
         = sqdist v j i"
proof -
  have "(\<Sum>d<ncols v. (at2 v (bidx (nrows v) j) (bidx (ncols v) d)
            - at2 v (bidx (nrows v) i) (bidx (ncols v) d))\<^sup>2)
        = (\<Sum>d<ncols v. (at2 v j d - at2 v i d)\<^sup>2)"
    using assms by (intro sum.cong refl) (simp add: bidx_less)
  then show ?thesis
    by (simp add: K_sum_last3_def K_square3_def K_sub3_def K_expand_dims0_def
        K_expand_dims1_def bdim_same sqdist_def)
qed

lemma pws_shape:
  "nrows (K_sum_last3 (K_square3 (K_sub3 (K_expand_dims0 v) (K_expand_dims1 v)))) = nrows v"
  "ncols (K_sum_last3 (K_square3 (K_sub3 (K_expand_dims0 v) (K_expand_dims1 v)))) = nrows v"
  by (simp_all add: K_sum_last3_def K_square3_def K_sub3_def K_expand_dims0_def
        K_expand_dims1_def bdim_def)

lemma sqdist_sym: "sqdist v i j = sqdist v j i"
  unfolding sqdist_def by (intro sum.cong refl) (simp add: power2_commute)

lemma edge_sym: "edge v i j = edge v j i"
  by (simp add: edge_def sqdist_sym [of v i j])

lemma edge_diag: "edge v i i = sqrt (1 / 10 ^ 9)"
  by (simp add: edge_def sqdist_def)

lemma perimeterLoss_pairs:
  "perimeterLoss raw
   = (1 / 2) * (\<Sum>i<ncols raw. \<Sum>j<ncols raw. edge (to_vertices raw) i j)"
proof -
  let ?v = "to_vertices raw"
  let ?P = "K_sum_last3 (K_square3 (K_sub3 (K_expand_dims0 ?v) (K_expand_dims1 ?v)))"
  have "(\<Sum>i<nrows ?v. \<Sum>j<nrows ?v. sqrt (at2 ?P i j + 1 / 10 ^ 9))
        = (\<Sum>i<nrows ?v. \<Sum>j<nrows ?v. edge ?v i j)"
    by (intro sum.cong refl) (simp add: pws_squares_at edge_def sqdist_sym)
  then show ?thesis
    by (simp add: perimeterLoss_def Let_def K_sum_all_def K_sqrt_def K_add_scalar_def
        pws_shape to_vertices_nrows)
qed

lemma sum_symmetric_pairs:
  fixes f :: "nat \<Rightarrow> nat \<Rightarrow> real"
  assumes "\<And>i j. f i j = f j i"
  shows "(\<Sum>i<n. \<Sum>j<n. f i j) = (\<Sum>i<n. f i i) + 2 * (\<Sum>i<n. \<Sum>j<i. f i j)"
proof (induction n)
  case 0
  show ?case by simp
next
  case (Suc n)
  have "(\<Sum>i<Suc n. \<Sum>j<Suc n. f i j)
        = (\<Sum>i<n. \<Sum>j<n. f i j) + (\<Sum>i<n. f i n) + (\<Sum>j<n. f n j) + f n n"
    by (simp add: sum.distrib)
  also have "(\<Sum>i<n. f i n) = (\<Sum>j<n. f n j)"
    by (intro sum.cong refl) (rule assms)
  finally show ?case
    using Suc.IH by (simp add: algebra_simps)
qed

text \<open>
  C3. \<open>perimeterLoss\<close> is one half of the sum, over all ordered pairs \<open>(i, j)\<close> of rows of
  the vertex matrix, the diagonal included, of the square root of the squared Euclidean
  distance of the two rows plus \<open>1e-9\<close>. Equivalently it is the sum of that square root
  over the pairs \<open>j < i\<close>, each unordered pair once, plus number_cat times the square root
  of \<open>1e-9\<close>, halved.
\<close>

theorem perimeterLoss_ordered_and_unordered_pairs:
  "perimeterLoss raw
     = (1 / 2) * (\<Sum>i<nrows (to_vertices raw). \<Sum>j<nrows (to_vertices raw).
                    sqrt (sqdist (to_vertices raw) i j + 1 / 10 ^ 9))
   \<and> perimeterLoss raw
     = (\<Sum>i<nrows (to_vertices raw). \<Sum>j<i.
          sqrt (sqdist (to_vertices raw) i j + 1 / 10 ^ 9))
       + real (ncols raw) * sqrt (1 / 10 ^ 9) / 2
   \<and> nrows (to_vertices raw) = ncols raw"
proof -
  let ?v = "to_vertices raw"
  have a: "perimeterLoss raw = (1 / 2) * (\<Sum>i<ncols raw. \<Sum>j<ncols raw. edge ?v i j)"
    by (rule perimeterLoss_pairs)
  have "(\<Sum>i<ncols raw. \<Sum>j<ncols raw. edge ?v i j)
        = (\<Sum>i<ncols raw. edge ?v i i) + 2 * (\<Sum>i<ncols raw. \<Sum>j<i. edge ?v i j)"
    by (rule sum_symmetric_pairs) (rule edge_sym)
  also have "(\<Sum>i<ncols raw. edge ?v i i) = real (ncols raw) * sqrt (1 / 10 ^ 9)"
    by (simp add: edge_diag)
  finally have b: "perimeterLoss raw
      = (\<Sum>i<ncols raw. \<Sum>j<i. edge ?v i j) + real (ncols raw) * sqrt (1 / 10 ^ 9) / 2"
    using a by simp
  show ?thesis
    using a b unfolding edge_def to_vertices_nrows by simp
qed

lemma is_permutation_length:
  assumes "is_permutation p n"
  shows "length p = n"
proof -
  have "card (set p) = length p"
    using assms by (intro distinct_card) (simp add: is_permutation_def)
  then show ?thesis
    using assms by (simp add: is_permutation_def)
qed

lemma is_permutation_nth_less:
  assumes "is_permutation p n" and "j < n"
  shows "p ! j < n"
proof -
  have "p ! j \<in> set p"
    using assms by (simp add: is_permutation_length)
  then show ?thesis
    using assms(1) by (simp add: is_permutation_def)
qed

lemma sum_permutation:
  fixes g :: "nat \<Rightarrow> real"
  assumes "is_permutation p n"
  shows "(\<Sum>j<n. g (p ! j)) = (\<Sum>j<n. g j)"
proof -
  have "bij_betw ((!) p) {..<length p} (set p)"
    using assms by (intro bij_betw_nth) (simp_all add: is_permutation_def)
  then have "bij_betw ((!) p) {..<n} {..<n}"
    using assms is_permutation_length [OF assms] by (simp add: is_permutation_def)
  then show ?thesis
    by (rule sum.reindex_bij_betw)
qed

lemma fraction_at_permute:
  assumes "is_permutation p (ncols raw)"
  shows "fraction_at (permute_columns p raw) d j = fraction_at raw d (p ! j)"
proof -
  have "(\<Sum>k<ncols raw. exp (at2 raw d (p ! k))) = (\<Sum>k<ncols raw. exp (at2 raw d k))"
    using assms by (rule sum_permutation)
  then show ?thesis
    by (simp add: fraction_at_def permute_columns_def is_permutation_length [OF assms])
qed

lemma colsum_permute:
  assumes "is_permutation p (ncols raw)"
  shows "colsum (permute_columns p raw) j = colsum raw (p ! j)"
  by (simp add: colsum_def fraction_at_permute [OF assms]) (simp add: permute_columns_def)

lemma to_vertices_permute:
  assumes "is_permutation p (ncols raw)" and "j < ncols raw" and "d < nrows raw"
  shows "at2 (to_vertices (permute_columns p raw)) j d = at2 (to_vertices raw) (p ! j) d"
proof -
  have shape: "ncols (permute_columns p raw) = ncols raw" "nrows (permute_columns p raw) = nrows raw"
    by (simp_all add: permute_columns_def is_permutation_length [OF assms(1)])
  have "at2 (to_vertices (permute_columns p raw)) j d
        = fraction_at (permute_columns p raw) d j / colsum (permute_columns p raw) j"
    using assms shape by (simp add: to_vertices_at)
  also have "\<dots> = fraction_at raw d (p ! j) / colsum raw (p ! j)"
    by (simp add: fraction_at_permute [OF assms(1)] colsum_permute [OF assms(1)])
  also have "\<dots> = at2 (to_vertices raw) (p ! j) d"
    using assms by (simp add: to_vertices_at is_permutation_nth_less)
  finally show ?thesis .
qed

lemma edge_permute:
  assumes "is_permutation p (ncols raw)" and "i < ncols raw" and "j < ncols raw"
  shows "edge (to_vertices (permute_columns p raw)) i j = edge (to_vertices raw) (p ! i) (p ! j)"
proof -
  have shape: "nrows (permute_columns p raw) = nrows raw"
    by (simp add: permute_columns_def)
  have "sqdist (to_vertices (permute_columns p raw)) i j
        = sqdist (to_vertices raw) (p ! i) (p ! j)"
    unfolding sqdist_def to_vertices_ncols shape
    using assms by (intro sum.cong refl) (simp add: to_vertices_permute)
  then show ?thesis
    by (simp add: edge_def)
qed

text \<open>
  C7. \<open>perimeterLoss\<close> does not change when the columns of the raw parameter matrix, the
  categories, are permuted.
\<close>

theorem perimeterLoss_permutation_invariant:
  assumes "is_permutation p (ncols raw)"
  shows "perimeterLoss (permute_columns p raw) = perimeterLoss raw"
proof -
  let ?n = "ncols raw"
  let ?e = "edge (to_vertices raw)"
  have len: "ncols (permute_columns p raw) = ?n"
    by (simp add: permute_columns_def is_permutation_length [OF assms])
  have "(\<Sum>i<?n. \<Sum>j<?n. edge (to_vertices (permute_columns p raw)) i j)
        = (\<Sum>i<?n. \<Sum>j<?n. ?e (p ! i) (p ! j))"
    using assms by (intro sum.cong refl) (simp add: edge_permute)
  also have "\<dots> = (\<Sum>i<?n. \<Sum>j<?n. ?e (p ! i) j)"
    by (rule sum.cong [OF refl]) (rule sum_permutation [OF assms])
  also have "\<dots> = (\<Sum>i<?n. \<Sum>j<?n. ?e i j)"
    by (rule sum_permutation [OF assms, of "\<lambda>i. \<Sum>j<?n. ?e i j"])
  finally show ?thesis
    by (simp add: perimeterLoss_pairs len)
qed

theorem perimeterLoss_permutation_invariant_witness:
  "is_permutation [2, 0, 1] (ncols raw_example)
   \<and> perimeterLoss (permute_columns [2, 0, 1] raw_example) = perimeterLoss raw_example"
proof -
  have "{..<3::nat} = {0, 1, 2}"
    by auto
  then have a: "is_permutation [2, 0, 1] (ncols raw_example)"
    by (auto simp add: is_permutation_def raw_example_def)
  show ?thesis
    using a perimeterLoss_permutation_invariant [OF a] by blast
qed

section \<open>Construction of the DeMixer\<close>

lemma DeMixer_init_ok:
  assumes "C \<le> D"
  shows "DeMixer_init D C a arch =
           Inr \<lparr>dm_output_dim = D, dm_number_cat = C, dm_alpha = a,
                architecture = arch,
                raw_fractions = slice_columns (K_eye D) C\<rparr>"
  using assms by (simp add: DeMixer_init_def add_weight_def slice_columns_def K_eye_def)

lemma DeMixer_init_Inr:
  assumes "DeMixer_init D C a arch = Inr dm"
  shows "dm = \<lparr>dm_output_dim = D, dm_number_cat = C, dm_alpha = a,
                architecture = arch,
                raw_fractions = slice_columns (K_eye D) C\<rparr>
         \<and> min C D = C"
  using assms
  by (auto simp add: DeMixer_init_def add_weight_def slice_columns_def K_eye_def
      split: if_splits)

text \<open>
  C8. A constructed DeMixer has a raw parameter matrix of shape (output_dim, number_cat)
  whose entry \<open>(i, j)\<close> is one when \<open>i = j\<close> and zero otherwise: the first number_cat
  columns of the identity matrix of size output_dim.
\<close>

theorem DeMixer_init_raw_fractions:
  assumes "DeMixer_init D C a arch = Inr self"
  shows "nrows (raw_fractions self) = D
       \<and> ncols (raw_fractions self) = C
       \<and> (\<forall>i<D. \<forall>j<C.
            at2 (raw_fractions self) i j = (if i = j then 1 else 0))"
  using DeMixer_init_Inr [OF assms]
  by (simp add: slice_columns_def K_eye_def)

theorem DeMixer_init_raw_fractions_witness:
  "\<exists>self. DeMixer_init 3 2 (1 / 10000) (model_example 2) = Inr self
     \<and> nrows (raw_fractions self) = 3 \<and> ncols (raw_fractions self) = 2
     \<and> (\<forall>i<3. \<forall>j<2. at2 (raw_fractions self) i j = (if i = j then 1 else 0))"
proof -
  have "DeMixer_init 3 2 (1 / 10000) (model_example 2) = Inr demixer_example"
    by (simp add: DeMixer_init_def add_weight_def slice_columns_def K_eye_def
        demixer_example_def)
  then show ?thesis
    using DeMixer_init_raw_fractions [of 3 2 "1 / 10000" "model_example 2" demixer_example] by blast
qed

section \<open>Hyperparameters and the mode\<close>

lemma proc_arg_output_dim:
  "proc_arg hp_output_dim (\<lambda>h. h\<lparr>hp_output_dim := None\<rparr>) d h
   = ((case hp_output_dim h of Some v \<Rightarrow> v | None \<Rightarrow> d), h\<lparr>hp_output_dim := None\<rparr>)"
  by (cases h) (simp add: proc_arg_def split: option.splits)

lemma proc_arg_number_cat:
  "proc_arg hp_number_cat (\<lambda>h. h\<lparr>hp_number_cat := None\<rparr>) d h
   = ((case hp_number_cat h of Some v \<Rightarrow> v | None \<Rightarrow> d), h\<lparr>hp_number_cat := None\<rparr>)"
  by (cases h) (simp add: proc_arg_def split: option.splits)

lemma proc_arg_mode:
  "proc_arg hp_mode (\<lambda>h. h\<lparr>hp_mode := None\<rparr>) d h
   = ((case hp_mode h of Some v \<Rightarrow> v | None \<Rightarrow> d), h\<lparr>hp_mode := None\<rparr>)"
  by (cases h) (simp add: proc_arg_def split: option.splits)

lemma proc_arg_alpha:
  "proc_arg hp_alpha (\<lambda>h. h\<lparr>hp_alpha := None\<rparr>) d h
   = ((case hp_alpha h of Some v \<Rightarrow> v | None \<Rightarrow> d), h\<lparr>hp_alpha := None\<rparr>)"
  by (cases h) (simp add: proc_arg_def split: option.splits)

lemma process_hps_unfold:
  "process_hps cls kw =
     (if lower (requested_mode kw) \<noteq> ''demix'' \<and> lower (requested_mode kw) \<noteq> ''plain''
      then Inl (mode_error (lower (requested_mode kw)))
      else if lower (requested_mode kw) = ''demix''
      then Inr \<lparr>class_name = cls, self_hps = no_hps, output_dim = requested_number_cat kw,
                number_cat = requested_number_cat kw, mode = ''demix'',
                alpha = requested_alpha kw,
                demixer_output_dim = Some (requested_output_dim kw),
                u_model = None, u_demixer = None\<rparr>
      else Inr \<lparr>class_name = cls, self_hps = no_hps, output_dim = requested_output_dim kw,
                number_cat = requested_number_cat kw, mode = ''plain'',
                alpha = requested_alpha kw, demixer_output_dim = None,
                u_model = None, u_demixer = None\<rparr>)"
proof -
  have rest: "kw\<lparr>hp_output_dim := None, hp_number_cat := None, hp_mode := None,
                hp_alpha := None\<rparr> = no_hps"
    by (cases kw) (simp add: no_hps_def)
  show ?thesis
    unfolding process_hps_def proc_arg_output_dim proc_arg_number_cat proc_arg_mode
      proc_arg_alpha
    by (simp add: Let_def rest requested_mode_def requested_number_cat_def
        requested_output_dim_def requested_alpha_def allowed_modes_def mode_error_def
        repr_list_def repr_str_def split: option.splits)
qed

lemma lower_demix: "lower ''demix'' = ''demix''"
  by (simp add: lower_def lower_char_def)

lemma lower_plain: "lower ''plain'' = ''plain''"
  by (simp add: lower_def lower_char_def)

section \<open>Attribute lookup\<close>

lemma getattr_model_set:
  assumes "u_model s = Some m"
  shows "getattr_self (Suc (Suc k)) s ''model'' = Inr (VModel m)"
  using assms
  by (simp add: default_lookup_def model_getter_def hasattr_self_def instance_dict_def)

lemma getattr_demixer_set:
  assumes "u_demixer s = Some dm"
  shows "getattr_self (Suc (Suc k)) s ''demixer'' = Inr (VDemixer dm)"
  using assms
  by (simp add: default_lookup_def demixer_getter_def hasattr_self_def instance_dict_def)

lemma getattr_model_unset:
  assumes "u_model s = None"
  shows "getattr_self n s ''model'' = Inl RecursionError
       \<and> getattr_self n s ''_model'' = Inl RecursionError"
proof (induction n)
  case 0
  show ?case by simp
next
  case (Suc n)
  then show ?case
    using assms
    by (simp add: default_lookup_def model_getter_def hasattr_self_def instance_dict_def
        dunder_getattr_def)
qed

lemma getattr_demixer_unset:
  assumes "u_model s = Some m" and "u_demixer s = None"
    and "\<not> has_attr m ''_demixer''" and "\<not> has_attr m ''demixer''"
  shows "getattr_self (Suc (Suc (Suc (Suc k)))) s ''demixer''
         = Inl (AttributeError (quote @ class_name s @ quote @ '' object has no attribute ''
                  @ quote @ ''demixer'' @ quote @ '', check of underlying model failed''))"
proof -
  have m: "getattr_self (Suc (Suc j)) s ''model'' = Inr (VModel m)" for j
    using assms(1) by (rule getattr_model_set)
  have "getattr_self (Suc (Suc (Suc k))) s ''_demixer''
        = Inl (AttributeError (quote @ class_name s @ quote @ '' object has no attribute ''
                  @ quote @ ''_demixer'' @ quote @ '', check of underlying model failed''))"
    using assms m [of k]
    by (simp add: default_lookup_def instance_dict_def dunder_getattr_def del: getattr_self.simps(2))
       (simp add: default_lookup_def instance_dict_def dunder_getattr_def)
  then show ?thesis
    using assms m [of "Suc k"]
    by (simp add: default_lookup_def demixer_getter_def hasattr_self_def dunder_getattr_def
        del: getattr_self.simps(2))
       (simp add: default_lookup_def demixer_getter_def hasattr_self_def dunder_getattr_def)
qed

lemma getattr_demixer_no_model:
  assumes "u_model s = None" and "u_demixer s = None"
  shows "getattr_self n s ''demixer'' = Inl RecursionError"
proof (cases n)
  case 0
  then show ?thesis by simp
next
  case (Suc n')
  have "getattr_self n' s ''_demixer'' = Inl RecursionError"
  proof (cases n')
    case 0
    then show ?thesis by simp
  next
    case (Suc j)
    have "getattr_self j s ''model'' = Inl RecursionError"
      using getattr_model_unset [OF assms(1)] by blast
    then show ?thesis
      using assms(2) Suc
      by (simp add: default_lookup_def instance_dict_def dunder_getattr_def)
  qed
  then show ?thesis
    using Suc by (simp add: default_lookup_def demixer_getter_def hasattr_self_def)
qed

section \<open>Construction of an NNBase, fit and predict\<close>

lemma construct_demixer_Inr:
  assumes "construct_demixer depth s = Inr s'" and "u_model s = Some m"
  shows "\<exists>d dm. demixer_output_dim s = Some d
           \<and> DeMixer_init d (number_cat s) (alpha s) m = Inr dm
           \<and> s' = s\<lparr>u_demixer := Some dm\<rparr>"
proof (cases depth)
  case 0
  then show ?thesis
    using assms by (simp add: construct_demixer_def)
next
  case (Suc k)
  show ?thesis
  proof (cases "demixer_output_dim s")
    case None
    then have "getattr_self (Suc k) s ''demixer_output_dim''
               = dunder_getattr s (getattr_self k s) ''demixer_output_dim''"
      by (simp add: default_lookup_def instance_dict_def)
    then have "\<forall>d. getattr_self (Suc k) s ''demixer_output_dim'' \<noteq> Inr (VNat d)"
      by (simp add: dunder_getattr_def split: sum.splits)
    then show ?thesis
      using assms(1) Suc
      by (auto simp add: construct_demixer_def simp del: getattr_self.simps
          split: sum.splits pyval.splits)
  next
    case (Some d)
    then have od: "getattr_self (Suc k) s ''demixer_output_dim'' = Inr (VNat d)"
      by (simp add: default_lookup_def instance_dict_def)
    show ?thesis
    proof (cases k)
      case 0
      then have "getattr_self (Suc k) s ''model'' = Inl RecursionError"
        by (simp add: default_lookup_def model_getter_def hasattr_self_def)
      then show ?thesis
        using assms(1) Suc od by (simp add: construct_demixer_def del: getattr_self.simps)
    next
      case (Suc j)
      then have "getattr_self (Suc k) s ''model'' = Inr (VModel m)"
        using assms(2) by (simp add: getattr_model_set del: getattr_self.simps)
      then show ?thesis
        using assms(1) \<open>depth = Suc k\<close> od Some
        by (auto simp add: construct_demixer_def simp del: getattr_self.simps split: sum.splits)
    qed
  qed
qed

lemma construct_demixer_ok:
  assumes "u_model s = Some m" and "demixer_output_dim s = Some d"
    and "DeMixer_init d (number_cat s) (alpha s) m = Inr dm"
  shows "construct_demixer (Suc (Suc k)) s = Inr (s\<lparr>u_demixer := Some dm\<rparr>)"
proof -
  have "getattr_self (Suc (Suc k)) s ''demixer_output_dim'' = Inr (VNat d)"
    using assms(2) by (simp add: default_lookup_def instance_dict_def)
  moreover have "getattr_self (Suc (Suc k)) s ''model'' = Inr (VModel m)"
    using assms(1) by (rule getattr_model_set)
  ultimately show ?thesis
    using assms(3) by (simp add: construct_demixer_def del: getattr_self.simps)
qed

lemma NNBase_init_Inr:
  assumes "NNBase_init cls build kw depth = Inr self"
  shows "\<exists>s1 m. process_hps cls kw = Inr s1 \<and> build s1 = Inr m
           \<and> (if mode s1 = ''demix''
               then construct_demixer depth (s1\<lparr>u_model := Some m\<rparr>) = Inr self
               else self = s1\<lparr>u_model := Some m\<rparr>)"
  using assms by (auto simp add: NNBase_init_def Let_def split: sum.splits if_splits)

lemma NNBase_init_demix:
  assumes "NNBase_init cls build kw depth = Inr self"
    and "lower (requested_mode kw) = ''demix''"
  shows "\<exists>s1 m dm. process_hps cls kw = Inr s1 \<and> mode s1 = ''demix''
           \<and> output_dim s1 = requested_number_cat kw \<and> build s1 = Inr m
           \<and> DeMixer_init (requested_output_dim kw) (requested_number_cat kw)
                (requested_alpha kw) m = Inr dm
           \<and> self = s1\<lparr>u_model := Some m, u_demixer := Some dm\<rparr>"
proof -
  obtain s1 m where p: "process_hps cls kw = Inr s1" and b: "build s1 = Inr m"
    and c: "if mode s1 = ''demix''
            then construct_demixer depth (s1\<lparr>u_model := Some m\<rparr>) = Inr self
            else self = s1\<lparr>u_model := Some m\<rparr>"
    using NNBase_init_Inr [OF assms(1)] by blast
  have s1: "mode s1 = ''demix''" "output_dim s1 = requested_number_cat kw"
    "number_cat s1 = requested_number_cat kw" "alpha s1 = requested_alpha kw"
    "demixer_output_dim s1 = Some (requested_output_dim kw)"
    using p assms(2) by (auto simp add: process_hps_unfold)
  have "construct_demixer depth (s1\<lparr>u_model := Some m\<rparr>) = Inr self"
    using c s1(1) by simp
  then obtain d dm where "demixer_output_dim (s1\<lparr>u_model := Some m\<rparr>) = Some d"
    and "DeMixer_init d (number_cat (s1\<lparr>u_model := Some m\<rparr>))
           (alpha (s1\<lparr>u_model := Some m\<rparr>)) m = Inr dm"
    and "self = s1\<lparr>u_model := Some m, u_demixer := Some dm\<rparr>"
    using construct_demixer_Inr [of depth "s1\<lparr>u_model := Some m\<rparr>" self m] by auto
  then show ?thesis
    using p b s1 by auto
qed

lemma NNBase_init_plain:
  assumes "NNBase_init cls build kw depth = Inr self"
    and "lower (requested_mode kw) = ''plain''"
  shows "\<exists>s1 m. process_hps cls kw = Inr s1 \<and> mode s1 = ''plain''
           \<and> output_dim s1 = requested_output_dim kw \<and> build s1 = Inr m
           \<and> u_demixer s1 = None
           \<and> self = s1\<lparr>u_model := Some m\<rparr>"
proof -
  obtain s1 m where p: "process_hps cls kw = Inr s1" and b: "build s1 = Inr m"
    and c: "if mode s1 = ''demix''
            then construct_demixer depth (s1\<lparr>u_model := Some m\<rparr>) = Inr self
            else self = s1\<lparr>u_model := Some m\<rparr>"
    using NNBase_init_Inr [OF assms(1)] by blast
  have s1: "mode s1 = ''plain''" "output_dim s1 = requested_output_dim kw"
    "u_demixer s1 = None"
    using p assms(2) by (auto simp add: process_hps_unfold)
  then show ?thesis
    using p b c by auto
qed

lemma NNBase_init_ok:
  assumes "process_hps cls kw = Inr s1" and "build s1 = Inr m"
    and "mode s1 = ''demix'' \<longrightarrow> requested_number_cat kw \<le> requested_output_dim kw"
  shows "\<exists>self. NNBase_init cls build kw (Suc (Suc k)) = Inr self"
proof (cases "mode s1 = ''demix''")
  case True
  then have md: "lower (requested_mode kw) = ''demix''"
    using assms(1) by (auto simp add: process_hps_unfold split: if_splits)
  have s1: "number_cat s1 = requested_number_cat kw" "alpha s1 = requested_alpha kw"
    "demixer_output_dim s1 = Some (requested_output_dim kw)"
    using assms(1) md by (auto simp add: process_hps_unfold)
  have "construct_demixer (Suc (Suc k)) (s1\<lparr>u_model := Some m\<rparr>)
        = Inr (s1\<lparr>u_model := Some m,
                 u_demixer := Some \<lparr>dm_output_dim = requested_output_dim kw,
                   dm_number_cat = requested_number_cat kw, dm_alpha = requested_alpha kw,
                   architecture = m,
                   raw_fractions = slice_columns (K_eye (requested_output_dim kw))
                                     (requested_number_cat kw)\<rparr>\<rparr>)"
    using s1 assms(3) True
    by (intro construct_demixer_ok [where d = "requested_output_dim kw"])
       (simp_all add: DeMixer_init_ok)
  then show ?thesis
    using assms(1,2) True by (simp add: NNBase_init_def del: getattr_self.simps)
next
  case False
  then show ?thesis
    using assms(1,2) by (simp add: NNBase_init_def)
qed

lemma plain_init_example:
  "NNBase_init ''EFN'' build_example kwargs_plain depth
   = Inr \<lparr>class_name = ''EFN'', self_hps = no_hps, output_dim = 3, number_cat = 3,
          mode = ''plain'', alpha = 1 / 10000, demixer_output_dim = None,
          u_model = Some (model_example 3), u_demixer = None\<rparr>"
  by (simp add: NNBase_init_def process_hps_unfold requested_mode_def kwargs_plain_def
      lower_plain requested_number_cat_def requested_output_dim_def requested_alpha_def
      build_example_def)

lemma demix_init_example:
  "\<exists>self. NNBase_init ''EFN'' build_example kwargs_demix (Suc (Suc 0)) = Inr self"
proof -
  have l: "lower ''DeMix'' = ''demix''"
    by code_simp
  have md: "lower (requested_mode kwargs_demix) = ''demix''"
    by (simp add: requested_mode_def kwargs_demix_def l)
  obtain s1 :: "tensor2 NNBase" where p: "process_hps ''EFN'' kwargs_demix = Inr s1"
    using md by (simp add: process_hps_unfold)
  show ?thesis
    using p
    by (rule NNBase_init_ok [where m = "model_example (output_dim s1)"])
       (simp_all add: build_example_def requested_number_cat_def requested_output_dim_def
        kwargs_demix_def)
qed

text \<open>
  C6. When the mode hyperparameter is given and its lowercase form is neither \<open>demix\<close>
  nor \<open>plain\<close>, processing the hyperparameters fails with a \<open>ValueError\<close> whose message
  cites the lowercase form of the value and the list of the valid options, and so does
  the construction of the object, whatever the subclass would build. When the lowercase
  form is \<open>demix\<close> or \<open>plain\<close>, in any capitalisation, the mode is accepted and stored
  in lowercase.
\<close>

theorem process_hps_mode_validation:
  fixes build :: "'inp NNBase \<Rightarrow> error + 'inp keras_model"
  assumes "hp_mode kw = Some m"
  shows "(lower m \<noteq> ''demix'' \<and> lower m \<noteq> ''plain'' \<longrightarrow>
            (process_hps cls kw :: error + 'inp NNBase) = Inl (mode_error (lower m))
          \<and> NNBase_init cls build kw depth = Inl (mode_error (lower m)))
       \<and> (lower m = ''demix'' \<or> lower m = ''plain'' \<longrightarrow>
            (\<exists>self :: 'inp NNBase. process_hps cls kw = Inr self \<and> mode self = lower m))"
proof -
  have rm: "requested_mode kw = m"
    using assms by (simp add: requested_mode_def)
  show ?thesis
    by (auto simp add: process_hps_unfold rm NNBase_init_def)
qed

theorem process_hps_mode_validation_witness:
  "(process_hps ''EFN'' kwargs_invalid :: error + tensor2 NNBase)
     = Inl (ValueError (''Unrecognised mode '' @ quote @ ''invalid'' @ quote
              @ ''. Valid options are ['' @ quote @ ''demix'' @ quote @ '', ''
              @ quote @ ''plain'' @ quote @ ''].''))
   \<and> (\<exists>self :: tensor2 NNBase. process_hps ''EFN'' kwargs_demix = Inr self
         \<and> mode self = ''demix'')"
proof -
  have l1: "lower ''Invalid'' = ''invalid''" and l2: "lower ''DeMix'' = ''demix''"
    by code_simp+
  have a: "hp_mode kwargs_invalid = Some ''Invalid''" and b: "hp_mode kwargs_demix = Some ''DeMix''"
    by (simp_all add: kwargs_invalid_def kwargs_demix_def)
  show ?thesis
    using process_hps_mode_validation [OF a, of "''EFN''" build_example 0]
      process_hps_mode_validation [OF b, of "''EFN''" build_example 0]
    unfolding l1 l2 mode_error_def by simp
qed

text \<open>
  C5. Let an NNBase be constructed from keyword arguments that request the output
  dimension \<open>D\<close> (two by default) and the category count \<open>C\<close> (\<open>D\<close> by default). In demix
  mode the subclass builds the inner model from an object whose \<open>output_dim\<close> is \<open>C\<close>, a
  DeMixer around this model is stored with output dimension \<open>D\<close> and \<open>C\<close> categories, and
  \<open>fit\<close> and \<open>predict\<close> work on the DeMixer. In plain mode the inner model is built with
  \<open>output_dim\<close> \<open>D\<close>, there is no DeMixer, and \<open>fit\<close> and \<open>predict\<close> work on the inner
  model. The lookups of \<open>fit\<close> and \<open>predict\<close> need a nesting depth of two.
\<close>

theorem NNBase_mode_dispatch:
  assumes "NNBase_init cls build kw depth = Inr self"
  shows "(lower (requested_mode kw) = ''demix'' \<longrightarrow>
            mode self = ''demix'' \<and> output_dim self = requested_number_cat kw
          \<and> (\<exists>s m dm. build s = Inr m \<and> output_dim s = requested_number_cat kw
                \<and> u_model self = Some m \<and> u_demixer self = Some dm
                \<and> architecture dm = m
                \<and> dm_output_dim dm = requested_output_dim kw
                \<and> dm_number_cat dm = requested_number_cat kw
                \<and> fitTarget (Suc (Suc k)) self = Inr (VDemixer dm)
                \<and> predictTarget (Suc (Suc k)) self = Inr (VDemixer dm)))
       \<and> (lower (requested_mode kw) = ''plain'' \<longrightarrow>
            mode self = ''plain'' \<and> output_dim self = requested_output_dim kw
          \<and> u_demixer self = None
          \<and> (\<exists>s m. build s = Inr m \<and> output_dim s = requested_output_dim kw
                \<and> u_model self = Some m
                \<and> fitTarget (Suc (Suc k)) self = Inr (VModel m)
                \<and> predictTarget (Suc (Suc k)) self = Inr (VModel m)))"
proof (intro conjI impI)
  assume md: "lower (requested_mode kw) = ''demix''"
  obtain s1 m dm where p: "process_hps cls kw = Inr s1" and "mode s1 = ''demix''"
    and od: "output_dim s1 = requested_number_cat kw" and b: "build s1 = Inr m"
    and dm: "DeMixer_init (requested_output_dim kw) (requested_number_cat kw)
               (requested_alpha kw) m = Inr dm"
    and self: "self = s1\<lparr>u_model := Some m, u_demixer := Some dm\<rparr>"
    using NNBase_init_demix [OF assms md] by blast
  show "mode self = ''demix''"
    using self \<open>mode s1 = ''demix''\<close> by simp
  show "output_dim self = requested_number_cat kw"
    using self od by simp
  have dmf: "architecture dm = m" "dm_output_dim dm = requested_output_dim kw"
    "dm_number_cat dm = requested_number_cat kw"
    using DeMixer_init_Inr [OF dm] by simp_all
  have t: "getattr_self (Suc (Suc k)) self ''demixer'' = Inr (VDemixer dm)"
    using self by (intro getattr_demixer_set) simp
  have "fitTarget (Suc (Suc k)) self = Inr (VDemixer dm)"
    "predictTarget (Suc (Suc k)) self = Inr (VDemixer dm)"
    using t self \<open>mode s1 = ''demix''\<close>
    by (simp_all add: fitTarget_def predictTarget_def del: getattr_self.simps)
  then show "\<exists>s m dm. build s = Inr m \<and> output_dim s = requested_number_cat kw
                \<and> u_model self = Some m \<and> u_demixer self = Some dm
                \<and> architecture dm = m
                \<and> dm_output_dim dm = requested_output_dim kw
                \<and> dm_number_cat dm = requested_number_cat kw
                \<and> fitTarget (Suc (Suc k)) self = Inr (VDemixer dm)
                \<and> predictTarget (Suc (Suc k)) self = Inr (VDemixer dm)"
    using b od self dmf by (intro exI [of _ s1] exI [of _ m] exI [of _ dm]) simp
next
  assume md: "lower (requested_mode kw) = ''plain''"
  obtain s1 m where p: "process_hps cls kw = Inr s1" and m1: "mode s1 = ''plain''"
    and od: "output_dim s1 = requested_output_dim kw" and b: "build s1 = Inr m"
    and nd: "u_demixer s1 = None"
    and self: "self = s1\<lparr>u_model := Some m\<rparr>"
    using NNBase_init_plain [OF assms md] by blast
  show "mode self = ''plain''"
    using self m1 by simp
  show "output_dim self = requested_output_dim kw"
    using self od by simp
  show "u_demixer self = None"
    using self nd by simp
  have t: "getattr_self (Suc (Suc k)) self ''model'' = Inr (VModel m)"
    using self by (intro getattr_model_set) simp
  have "fitTarget (Suc (Suc k)) self = Inr (VModel m)"
    "predictTarget (Suc (Suc k)) self = Inr (VModel m)"
    using t self m1
    by (simp_all add: fitTarget_def predictTarget_def del: getattr_self.simps)
  then show "\<exists>s m. build s = Inr m \<and> output_dim s = requested_output_dim kw
                \<and> u_model self = Some m
                \<and> fitTarget (Suc (Suc k)) self = Inr (VModel m)
                \<and> predictTarget (Suc (Suc k)) self = Inr (VModel m)"
    using b od self by (intro exI [of _ s1] exI [of _ m]) simp
qed

theorem NNBase_mode_dispatch_witness:
  "\<exists>self dm. NNBase_init ''EFN'' build_example kwargs_demix (Suc (Suc 0)) = Inr self
     \<and> mode self = ''demix'' \<and> output_dim self = 2
     \<and> u_demixer self = Some dm \<and> dm_output_dim dm = 3 \<and> dm_number_cat dm = 2
     \<and> fitTarget (Suc (Suc 0)) self = Inr (VDemixer dm)
     \<and> predictTarget (Suc (Suc 0)) self = Inr (VDemixer dm)"
proof -
  have l: "lower ''DeMix'' = ''demix''"
    by code_simp
  have md: "lower (requested_mode kwargs_demix) = ''demix''"
    by (simp add: requested_mode_def kwargs_demix_def l)
  have rq: "requested_number_cat kwargs_demix = 2" "requested_output_dim kwargs_demix = 3"
    by (simp_all add: requested_number_cat_def requested_output_dim_def kwargs_demix_def)
  obtain self where init: "NNBase_init ''EFN'' build_example kwargs_demix (Suc (Suc 0)) = Inr self"
    using demix_init_example by blast
  show ?thesis
    using init NNBase_mode_dispatch [OF init, of 0] md unfolding rq by auto
qed

text \<open>
  C10. When no mode is given, a constructed NNBase is in demix mode: it holds a DeMixer
  around its inner model, \<open>fit\<close> and \<open>predict\<close> work on the DeMixer, and \<open>predict\<close>
  returns what \<open>DeMixer.call\<close> returns.
\<close>

theorem NNBase_default_mode_is_demix:
  assumes "hp_mode kw = None" and "NNBase_init cls build kw depth = Inr self"
  shows "mode self = ''demix''
       \<and> (\<exists>m dm. u_model self = Some m \<and> u_demixer self = Some dm
             \<and> architecture dm = m
             \<and> fitTarget (Suc (Suc k)) self = Inr (VDemixer dm)
             \<and> predictTarget (Suc (Suc k)) self = Inr (VDemixer dm)
             \<and> (\<forall>x. predict (Suc (Suc k)) self x = snd (DeMixer_call dm x)))"
proof -
  have md: "lower (requested_mode kw) = ''demix''"
    using assms(1) by (simp add: requested_mode_def lower_demix)
  obtain s1 m dm where m1: "mode s1 = ''demix''"
    and dm: "DeMixer_init (requested_output_dim kw) (requested_number_cat kw)
               (requested_alpha kw) m = Inr dm"
    and self: "self = s1\<lparr>u_model := Some m, u_demixer := Some dm\<rparr>"
    using NNBase_init_demix [OF assms(2) md] by blast
  have arch: "architecture dm = m"
    using DeMixer_init_Inr [OF dm] by simp
  have t: "getattr_self (Suc (Suc k)) self ''demixer'' = Inr (VDemixer dm)"
    using self by (intro getattr_demixer_set) simp
  have tg: "fitTarget (Suc (Suc k)) self = Inr (VDemixer dm)"
    "predictTarget (Suc (Suc k)) self = Inr (VDemixer dm)"
    using t self m1 by (simp_all add: fitTarget_def predictTarget_def del: getattr_self.simps)
  have "predict (Suc (Suc k)) self x = snd (DeMixer_call dm x)" for x
    using tg(2) by (simp add: predict_def del: getattr_self.simps)
  then show ?thesis
    using self m1 arch tg by simp
qed

theorem NNBase_default_mode_is_demix_witness:
  "hp_mode kwargs_default = None
   \<and> (\<exists>self dm. NNBase_init ''EFN'' build_example kwargs_default (Suc (Suc 0)) = Inr self
        \<and> mode self = ''demix'' \<and> u_demixer self = Some dm
        \<and> fitTarget (Suc (Suc 0)) self = Inr (VDemixer dm)
        \<and> predictTarget (Suc (Suc 0)) self = Inr (VDemixer dm))"
proof -
  have a: "hp_mode kwargs_default = None"
    by (simp add: kwargs_default_def)
  have md: "lower (requested_mode kwargs_default) = ''demix''"
    by (simp add: requested_mode_def kwargs_default_def lower_demix)
  obtain s1 :: "tensor2 NNBase" where p: "process_hps ''EFN'' kwargs_default = Inr s1"
    using md by (simp add: process_hps_unfold)
  have "\<exists>self. NNBase_init ''EFN'' build_example kwargs_default (Suc (Suc 0)) = Inr self"
    using p
    by (rule NNBase_init_ok [where m = "model_example (output_dim s1)"])
       (simp_all add: build_example_def requested_number_cat_def requested_output_dim_def
        kwargs_default_def)
  then obtain self
    where init: "NNBase_init ''EFN'' build_example kwargs_default (Suc (Suc 0)) = Inr self"
    by blast
  show ?thesis
    using a init NNBase_default_mode_is_demix [OF a init, of 0] by auto
qed

text \<open>
  C9. The accessors at missing components. An object constructed in plain mode has an
  inner model and no DeMixer; reading \<open>demixer\<close> ends in the \<open>AttributeError\<close> of
  \<open>__getattr__\<close> (no attribute \<open>demixer\<close>, check of underlying model failed), because the
  interpreter calls \<open>__getattr__\<close> when the property raises; the message of the property
  (no underlying demixer) is lost. On an object without inner model, as it is between
  \<open>_process_hps\<close> and \<open>_construct_model\<close>, reading \<open>model\<close> or \<open>demixer\<close> ends in
  \<open>RecursionError\<close>: the test \<open>hasattr(self, '_model')\<close> of the property goes to
  \<open>__getattr__\<close>, which reads \<open>self.model\<close> again.
\<close>

theorem accessors_of_missing_components:
  "(\<exists>self. NNBase_init ''EFN'' build_example kwargs_plain 1000 = Inr self
       \<and> getattr_self 1000 self ''demixer''
           = Inl (AttributeError (quote @ ''EFN'' @ quote @ '' object has no attribute ''
                    @ quote @ ''demixer'' @ quote @ '', check of underlying model failed''))
       \<and> getattr_self 1000 self ''demixer''
           \<noteq> Inl (AttributeError (quote @ ''EFN'' @ quote
                    @ '' object has no underlying demixer'')))
   \<and> (\<exists>self :: tensor2 NNBase. process_hps ''EFN'' kwargs_plain = Inr self
       \<and> getattr_self 1000 self ''model'' = Inl RecursionError
       \<and> getattr_self 1000 self ''demixer'' = Inl RecursionError)"
proof (intro conjI)
  let ?self = "\<lparr>class_name = ''EFN'', self_hps = no_hps, output_dim = 3, number_cat = 3,
          mode = ''plain'', alpha = 1 / 10000, demixer_output_dim = None,
          u_model = Some (model_example 3), u_demixer = None\<rparr> :: tensor2 NNBase"
  have n: "(1000::nat) = Suc (Suc (Suc (Suc 996)))"
    by simp
  have "getattr_self (Suc (Suc (Suc (Suc 996)))) ?self ''demixer''
        = Inl (AttributeError (quote @ class_name ?self @ quote @ '' object has no attribute ''
                  @ quote @ ''demixer'' @ quote @ '', check of underlying model failed''))"
    by (rule getattr_demixer_unset [where m = "model_example 3"])
       (simp_all add: model_example_def)
  then have g: "getattr_self 1000 ?self ''demixer''
        = Inl (AttributeError (quote @ ''EFN'' @ quote @ '' object has no attribute ''
                  @ quote @ ''demixer'' @ quote @ '', check of underlying model failed''))"
    unfolding n by simp
  have ne: "getattr_self 1000 ?self ''demixer''
           \<noteq> Inl (AttributeError (quote @ ''EFN'' @ quote
                    @ '' object has no underlying demixer''))"
    unfolding g by (simp add: quote_def)
  show "\<exists>self. NNBase_init ''EFN'' build_example kwargs_plain 1000 = Inr self
       \<and> getattr_self 1000 self ''demixer''
           = Inl (AttributeError (quote @ ''EFN'' @ quote @ '' object has no attribute ''
                    @ quote @ ''demixer'' @ quote @ '', check of underlying model failed''))
       \<and> getattr_self 1000 self ''demixer''
           \<noteq> Inl (AttributeError (quote @ ''EFN'' @ quote
                    @ '' object has no underlying demixer''))"
    using plain_init_example [of 1000] g ne by blast
next
  let ?s1 = "\<lparr>class_name = ''EFN'', self_hps = no_hps, output_dim = 3, number_cat = 3,
          mode = ''plain'', alpha = 1 / 10000, demixer_output_dim = None,
          u_model = None, u_demixer = None\<rparr> :: tensor2 NNBase"
  have p: "process_hps ''EFN'' kwargs_plain = Inr ?s1"
    by (simp add: process_hps_unfold requested_mode_def kwargs_plain_def
      lower_plain requested_number_cat_def requested_output_dim_def requested_alpha_def)
  have "getattr_self 1000 ?s1 ''model'' = Inl RecursionError"
    using getattr_model_unset [of ?s1 1000] by simp
  moreover have "getattr_self 1000 ?s1 ''demixer'' = Inl RecursionError"
    by (rule getattr_demixer_no_model) simp_all
  ultimately show "\<exists>self :: tensor2 NNBase. process_hps ''EFN'' kwargs_plain = Inr self
       \<and> getattr_self 1000 self ''model'' = Inl RecursionError
       \<and> getattr_self 1000 self ''demixer'' = Inl RecursionError"
    using p by blast
qed

end
